theory Spec2Isabelle
  imports Complex_Main
begin

section \<open>JSON documents and JavaScript value tests\<close>

text \<open>
  The documents exchanged with the upstream provider are parsed JSON values. A JSON number
  is a finite IEEE double, whose exact value is a rational number; the model keeps that exact
  value. An object is the list of its own properties. JavaScript's \<open>null\<close> is \<open>JNull\<close>, and
  \<open>undefined\<close> is \<open>None\<close> of \<open>json option\<close>.

  A JavaScript string is modelled by the bytes of its UTF-8 encoding: ASCII text is itself,
  and a character beyond ASCII is several \<open>char\<close>s.
\<close>

datatype json =
    JNull
  | JBool bool
  | JNum rat
  | JStr string
  | JArr "json list"
  | JObj "(string \<times> json) list"

text \<open>The test \<open>!v\<close> of the source is \<open>\<not> truthy v\<close>: \<open>null\<close>, \<open>false\<close>, \<open>0\<close> and the empty
  string are falsy, every array and object is truthy.\<close>

fun truthy :: "json \<Rightarrow> bool" where
  "truthy JNull = False"
| "truthy (JBool b) = b"
| "truthy (JNum r) = (r \<noteq> 0)"
| "truthy (JStr s) = (s \<noteq> [])"
| "truthy (JArr xs) = True"
| "truthy (JObj kvs) = True"

fun truthy_opt :: "json option \<Rightarrow> bool" where
  "truthy_opt None = False"
| "truthy_opt (Some v) = truthy v"

text \<open>Reading one of the data properties \<open>properties\<close>, \<open>forecast\<close> or \<open>features\<close> of a
  value that is not \<open>null\<close>: only an object can have them, any other value gives \<open>undefined\<close>.\<close>

fun json_prop :: "string \<Rightarrow> json \<Rightarrow> json option" where
  "json_prop k (JObj kvs) = map_of kvs k"
| "json_prop k v = None"

text \<open>The number of UTF-16 code units that a byte of a UTF-8 encoding stands for: one for
  an ASCII byte and for the first byte of a two- or three-byte character, two for the first
  byte of a four-byte character, none for a continuation byte.\<close>

definition utf16_units :: "char \<Rightarrow> nat" where
  "utf16_units c =
     (if of_char c < (128::nat) then 1
      else if of_char c < (192::nat) then 0
      else if of_char c < (240::nat) then 1
      else 2)"

text \<open>The property \<open>length\<close>: arrays and strings have it built in; the length of a string
  is its number of UTF-16 code units.\<close>

fun js_length :: "json \<Rightarrow> json option" where
  "js_length (JArr xs) = Some (JNum (of_nat (length xs)))"
| "js_length (JStr s) = Some (JNum (of_nat (sum_list (map utf16_units s))))"
| "js_length (JObj kvs) = map_of kvs ''length''"
| "js_length v = None"

text \<open>\<open>pointsData.properties?.forecast\<close> (and \<open>pointsData?.properties?.forecast\<close>, which
  differs only when \<open>pointsData\<close> is \<open>null\<close>, where it is \<open>undefined\<close> as well).\<close>

definition properties_forecast :: "json \<Rightarrow> json option" where
  "properties_forecast pointsData =
     (case json_prop ''properties'' pointsData of
        None \<Rightarrow> None
      | Some p \<Rightarrow> json_prop ''forecast'' p)"

section \<open>Strings\<close>

text \<open>
  \<open>String.prototype.toUpperCase\<close>. On a string of ASCII characters the letters a to z are
  mapped to A to Z and every other character is left alone. On any other string the result
  is given by the Unicode case mapping of the platform, which is not part of the source: it
  is the parameter \<open>uc\<close>, a function on (encoded) strings. \<open>toLowerCase\<close>, which the source
  does not call, is modelled the same way with the parameter \<open>lc\<close>; it serves to say what
  the lower-case form of a region is.
\<close>

definition ascii :: "string \<Rightarrow> bool" where
  "ascii s = list_all (\<lambda>c. of_char c < (128::nat)) s"

definition upper_char :: "char \<Rightarrow> char" where
  "upper_char c =
     (if (97::nat) \<le> of_char c \<and> of_char c \<le> (122::nat)
      then char_of (of_char c - (32::nat)) else c)"

definition lower_char :: "char \<Rightarrow> char" where
  "lower_char c =
     (if (65::nat) \<le> of_char c \<and> of_char c \<le> (90::nat)
      then char_of (of_char c + (32::nat)) else c)"

definition toUpperCase :: "(string \<Rightarrow> string) \<Rightarrow> string \<Rightarrow> string" where
  "toUpperCase uc s = (if ascii s then map upper_char s else uc s)"

definition toLowerCase :: "(string \<Rightarrow> string) \<Rightarrow> string \<Rightarrow> string" where
  "toLowerCase lc s = (if ascii s then map lower_char s else lc s)"

definition lower_letter :: "char \<Rightarrow> bool" where
  "lower_letter c = ((97::nat) \<le> of_char c \<and> of_char c \<le> (122::nat))"

text \<open>Decimal digits of a natural number, most significant first; \<open>0\<close> is \<open>''0''\<close>.\<close>

definition digit_char :: "nat \<Rightarrow> char" where
  "digit_char d = ''0123456789'' ! d"

fun digits_of :: "nat \<Rightarrow> string" where
  "digits_of n = (if n < 10 then [digit_char n] else digits_of (n div 10) @ [digit_char (n mod 10)])"

declare digits_of.simps [simp del]

text \<open>
  \<open>Number.prototype.toFixed(f)\<close> on a finite number \<open>x\<close>, following the steps of the
  language standard on the exact value of \<open>x\<close>: the sign is split off, \<open>n\<close> is the integer
  nearest to \<open>x * 10^f\<close> (the larger one on a tie), its digits are padded with zeros to at least
  \<open>f + 1\<close> and the point is put before the last \<open>f\<close>. From \<open>10^21\<close> on the standard falls
  back to the plain number-to-string conversion, here the parameter \<open>num_to_string\<close>.
\<close>

definition toFixed :: "(rat \<Rightarrow> string) \<Rightarrow> nat \<Rightarrow> rat \<Rightarrow> string" where
  "toFixed num_to_string f x =
     (let s = (if x < 0 then ''-'' else []);
          ax = (if x < 0 then - x else x)
      in if ax \<ge> 10 ^ 21 then s @ num_to_string ax
         else
           let n = nat \<lfloor>ax * 10 ^ f + 1 / 2\<rfloor>;
               m = digits_of n
           in if f = 0 then s @ m
              else
                let m = (if length m \<le> f then replicate (f + 1 - length m) (CHR ''0'') @ m else m);
                    k = length m
                in s @ take (k - f) m @ ''.'' @ drop (k - f) m)"

text \<open>The shape of a number written with exactly \<open>f\<close> decimal places: an optional minus
  sign, at least one digit, a point, and exactly \<open>f\<close> digits.\<close>

definition is_digit :: "char \<Rightarrow> bool" where
  "is_digit c = (c \<in> set ''0123456789'')"

definition fixed_decimals :: "nat \<Rightarrow> string \<Rightarrow> bool" where
  "fixed_decimals f s =
     (let t = (case s of [] \<Rightarrow> s | c # r \<Rightarrow> if c = CHR ''-'' then r else s);
          k = length t
      in f + 2 \<le> k
         \<and> list_all is_digit (take (k - f - 1) t)
         \<and> t ! (k - f - 1) = CHR ''.''
         \<and> list_all is_digit (drop (k - f) t))"

section \<open>The upstream provider and the fetch primitive\<close>

text \<open>
  What one \<open>fetch\<close> does is decided by the outside world: the transport fails (DNS,
  connection, an argument that is no URL), or a response arrives with a status and a body
  that parses as JSON (\<open>Some\<close>) or does not (\<open>None\<close>, \<open>response.json()\<close> throws). The world
  is a function of the requests made so far and of the argument handed to \<open>fetch\<close>. Every
  operation takes the log of the requests made so far and returns it extended, so that the
  network calls of an operation can be counted. Writing to the console is left out.
\<close>

datatype http_outcome = TransportFailure | Response nat "json option"

type_synonym upstream = "json list \<Rightarrow> json \<Rightarrow> http_outcome"

definition NWS_API_BASE :: string where
  "NWS_API_BASE = ''https://api.weather.gov''"

definition response_ok :: "nat \<Rightarrow> bool" where
  "response_ok st = (200 \<le> st \<and> st \<le> 299)"

definition makeNWSRequest :: "upstream \<Rightarrow> json \<Rightarrow> json list \<Rightarrow> json \<times> json list" where
  "makeNWSRequest net url calls =
     ((case net calls url of
         TransportFailure \<Rightarrow> JNull
       | Response st body \<Rightarrow>
           if \<not> response_ok st then JNull
           else (case body of None \<Rightarrow> JNull | Some d \<Rightarrow> d)),
      calls @ [url])"

section \<open>The REST surface\<close>

text \<open>
  A value of \<open>req.query\<close>: a string, or, with repeated or bracketed keys, an array or an
  object of such values; \<open>undefined\<close> (\<open>None\<close>) when the parameter is absent.

  A template literal converts the value to a string, and the conversion can throw. A string
  is itself. An array is its elements, converted, joined by commas. An object without an own
  property \<open>toString\<close> is \<open>[object Object]\<close>. An object with an own \<open>toString\<close> has no
  callable conversion method (no query value is a function, and the inherited \<open>valueOf\<close>
  returns the object): the conversion throws a \<open>TypeError\<close>, here \<open>None\<close>.
\<close>

datatype qval = QStr string | QArr "qval list" | QObj "(string \<times> qval) list"

fun join_comma :: "string list \<Rightarrow> string" where
  "join_comma [] = []"
| "join_comma [s] = s"
| "join_comma (s # t # ss) = s @ '','' @ join_comma (t # ss)"

fun q_to_string :: "qval \<Rightarrow> string option" where
  "q_to_string (QStr s) = Some s"
| "q_to_string (QArr vs) = map_option join_comma (those (map q_to_string vs))"
| "q_to_string (QObj kvs) =
     (if ''toString'' \<in> set (map fst kvs) then None else Some ''[object Object]'')"

fun q_template :: "qval option \<Rightarrow> string option" where
  "q_template None = Some ''undefined''"
| "q_template (Some v) = q_to_string v"

fun q_truthy :: "qval option \<Rightarrow> bool" where
  "q_truthy None = False"
| "q_truthy (Some (QStr s)) = (s \<noteq> [])"
| "q_truthy (Some v) = True"

record rest_response =
  status :: nat
  body :: json

definition error_body :: "string \<Rightarrow> json" where
  "error_body msg = JObj [(''error'', JStr msg)]"

text \<open>The message of the \<open>TypeError\<close> of a failed conversion to a string, as the engine of
  the platform words it; the \<open>catch\<close> branch of a route sends it as \<open>error.message\<close>.\<close>

definition to_primitive_error_message :: string where
  "to_primitive_error_message = ''Cannot convert object to primitive value''"

text \<open>\<open>app.get('/alerts/:state')\<close>. The route parameter is a string, and nothing in the
  \<open>try\<close> block throws on a string, so the \<open>catch\<close> branch has no case.\<close>

definition rest_alerts ::
  "(string \<Rightarrow> string) \<Rightarrow> upstream \<Rightarrow> string \<Rightarrow> json list \<Rightarrow> rest_response \<times> json list" where
  "rest_alerts uc net state_param calls =
     (let state = toUpperCase uc state_param;
          alertsUrl = NWS_API_BASE @ ''/alerts?area='' @ state;
          (alertsData, calls') = makeNWSRequest net (JStr alertsUrl) calls
      in if \<not> truthy alertsData
         then (\<lparr>status = 500, body = error_body ''Failed to retrieve alerts data''\<rparr>, calls')
         else (\<lparr>status = 200, body = alertsData\<rparr>, calls'))"

text \<open>\<open>app.get('/forecast')\<close>. The template literal of the points URL converts the latitude
  and then the longitude to strings; when a conversion throws, the \<open>catch\<close> branch answers
  500 with the message of the error, before any request.\<close>

definition rest_points_url :: "string \<Rightarrow> string \<Rightarrow> string" where
  "rest_points_url latitude_text longitude_text =
     NWS_API_BASE @ ''/points/'' @ latitude_text @ '','' @ longitude_text"

definition rest_forecast ::
  "upstream \<Rightarrow> qval option \<Rightarrow> qval option \<Rightarrow> json list \<Rightarrow> rest_response \<times> json list" where
  "rest_forecast net latitude longitude calls =
     (if \<not> q_truthy latitude \<or> \<not> q_truthy longitude
      then (\<lparr>status = 400, body = error_body ''Latitude and longitude are required''\<rparr>, calls)
      else
        (case q_template latitude of
           None \<Rightarrow> (\<lparr>status = 500, body = error_body to_primitive_error_message\<rparr>, calls)
         | Some latitude_text \<Rightarrow>
        (case q_template longitude of
           None \<Rightarrow> (\<lparr>status = 500, body = error_body to_primitive_error_message\<rparr>, calls)
         | Some longitude_text \<Rightarrow>
        let pointsUrl = rest_points_url latitude_text longitude_text;
            (pointsData, calls1) = makeNWSRequest net (JStr pointsUrl) calls
        in if \<not> truthy pointsData
           then (\<lparr>status = 500, body = error_body
                    (''Failed to retrieve grid point data for coordinates: ''
                       @ latitude_text @ '', '' @ longitude_text)\<rparr>, calls1)
           else
             (case properties_forecast pointsData of
                None \<Rightarrow> (\<lparr>status = 500, body = error_body ''Failed to get forecast URL''\<rparr>, calls1)
              | Some forecastUrl \<Rightarrow>
                  if \<not> truthy forecastUrl
                  then (\<lparr>status = 500, body = error_body ''Failed to get forecast URL''\<rparr>, calls1)
                  else
                    let (forecastData, calls2) = makeNWSRequest net forecastUrl calls1
                    in if \<not> truthy forecastData
                       then (\<lparr>status = 500, body = error_body ''Failed to retrieve forecast data''\<rparr>,
                             calls2)
                       else (\<lparr>status = 200, body = forecastData\<rparr>, calls2)))))"

section \<open>The resource surface\<close>

text \<open>
  The handler of the \<open>weather-data\<close> resource. \<open>new URL(uri)\<close> and its \<open>searchParams\<close> are the
  platform's: the parameter \<open>parse_url\<close> gives the list of query pairs of a URI, or \<open>None\<close>
  where \<open>new URL\<close> throws. \<open>searchParams.get\<close> is the first value under a name, or \<open>null\<close>;
  the values are strings. \<open>JSON.stringify(data, null, 2)\<close> is the parameter \<open>stringify\<close>.
\<close>

datatype js_error = TypeError string | Error string

record resource_contents =
  res_uri :: string
  res_mimeType :: string
  res_text :: string

fun str_truthy :: "string option \<Rightarrow> bool" where
  "str_truthy None = False"
| "str_truthy (Some s) = (s \<noteq> [])"

fun str_template :: "string option \<Rightarrow> string" where
  "str_template None = ''null''"
| "str_template (Some s) = s"

definition resource_points_url :: "string option \<Rightarrow> string option \<Rightarrow> string" where
  "resource_points_url latitude longitude =
     NWS_API_BASE @ ''/points/'' @ str_template latitude @ '','' @ str_template longitude"

definition weather_data_resource ::
  "(string \<Rightarrow> string) \<Rightarrow> (string \<Rightarrow> (string \<times> string) list option) \<Rightarrow> (json \<Rightarrow> string)
     \<Rightarrow> upstream \<Rightarrow> string \<Rightarrow> json list \<Rightarrow> (js_error + resource_contents) \<times> json list" where
  "weather_data_resource uc parse_url stringify net uri_arg calls =
     (case parse_url uri_arg of
        None \<Rightarrow> (Inl (TypeError ''Invalid URL''), calls)
      | Some searchParams \<Rightarrow>
          let type = map_of searchParams ''type'';
              state = map_of searchParams ''state'';
              latitude = map_of searchParams ''latitude'';
              longitude = map_of searchParams ''longitude'';
              (data, calls') =
                (if type = Some ''alerts'' \<and> str_truthy state then
                   (case state of
                      Some st \<Rightarrow>
                        makeNWSRequest net
                          (JStr (NWS_API_BASE @ ''/alerts?area='' @ toUpperCase uc st)) calls
                    | None \<Rightarrow> (JNull, calls))
                 else if type = Some ''forecast'' \<and> str_truthy latitude \<and> str_truthy longitude then
                   (let pointsUrl = resource_points_url latitude longitude;
                        (pointsData, calls1) = makeNWSRequest net (JStr pointsUrl) calls
                    in case properties_forecast pointsData of
                         None \<Rightarrow> (JNull, calls1)
                       | Some forecastUrl \<Rightarrow>
                           if truthy forecastUrl then makeNWSRequest net forecastUrl calls1
                           else (JNull, calls1))
                 else (JNull, calls))
          in if \<not> truthy data
             then (Inl (Error ''Failed to retrieve weather data''), calls')
             else (Inr \<lparr>res_uri = uri_arg, res_mimeType = ''application/json'',
                        res_text = stringify data\<rparr>,
                   calls'))"

section \<open>The tool surface\<close>

text \<open>
  A tool returns one text content item, \<open>Content\<close>. The plain number-to-string conversion
  of a template literal is the parameter \<open>num_to_string\<close>, \<open>JSON.stringify(data, null, 2)\<close>
  the parameter \<open>stringify\<close>.
\<close>

datatype tool_result = InvalidParams | Content string

definition newline :: char where
  "newline = CHR 0x0A"

definition get_alerts ::
  "(string \<Rightarrow> string) \<Rightarrow> (json \<Rightarrow> string) \<Rightarrow> upstream \<Rightarrow> string \<Rightarrow> json list
     \<Rightarrow> tool_result \<times> json list" where
  "get_alerts uc stringify net state calls =
     (let stateCode = toUpperCase uc state;
          alertsUrl = NWS_API_BASE @ ''/alerts?area='' @ stateCode;
          (alertsData, calls') = makeNWSRequest net (JStr alertsUrl) calls
      in if \<not> truthy alertsData
         then (Content ''Failed to retrieve alerts data'', calls')
         else
           let features = (case json_prop ''features'' alertsData of
                             None \<Rightarrow> JArr []
                           | Some f \<Rightarrow> if truthy f then f else JArr [])
           in if js_length features = Some (JNum 0)
              then (Content (''No active alerts for '' @ stateCode), calls')
              else (Content (''Active alerts for '' @ stateCode @ '':'' @ [newline, newline]
                               @ stringify alertsData), calls'))"

definition tool_points_url :: "(rat \<Rightarrow> string) \<Rightarrow> rat \<Rightarrow> rat \<Rightarrow> string" where
  "tool_points_url num_to_string latitude longitude =
     NWS_API_BASE @ ''/points/'' @ toFixed num_to_string 4 latitude @ '',''
       @ toFixed num_to_string 4 longitude"

definition get_forecast ::
  "(rat \<Rightarrow> string) \<Rightarrow> (json \<Rightarrow> string) \<Rightarrow> upstream \<Rightarrow> rat \<Rightarrow> rat \<Rightarrow> json list
     \<Rightarrow> tool_result \<times> json list" where
  "get_forecast num_to_string stringify net latitude longitude calls =
     (let pointsUrl = tool_points_url num_to_string latitude longitude;
          (pointsData, calls1) = makeNWSRequest net (JStr pointsUrl) calls
      in if \<not> truthy pointsData
         then (Content (''Failed to retrieve grid point data for coordinates: ''
                 @ num_to_string latitude @ '', '' @ num_to_string longitude
                 @ ''. This location may not be supported by the NWS API (only US locations are supported).''),
               calls1)
         else
           (case properties_forecast pointsData of
              None \<Rightarrow> (Content ''Failed to get forecast URL from grid point data'', calls1)
            | Some forecastUrl \<Rightarrow>
                if \<not> truthy forecastUrl
                then (Content ''Failed to get forecast URL from grid point data'', calls1)
                else
                  let (forecastData, calls2) = makeNWSRequest net forecastUrl calls1
                  in if \<not> truthy forecastData
                     then (Content ''Failed to retrieve forecast data'', calls2)
                     else (Content (''Forecast for '' @ num_to_string latitude @ '', ''
                                      @ num_to_string longitude @ '':'' @ [newline, newline]
                                      @ stringify forecastData), calls2)))"

text \<open>The parameter schema of a coordinate of \<open>get-forecast\<close>, \<open>z.number().min(lo).max(hi)\<close>,
  on an argument that may be absent: the accepted number, or \<open>None\<close> when it is refused.\<close>

definition number_range_schema :: "rat \<Rightarrow> rat \<Rightarrow> json option \<Rightarrow> rat option" where
  "number_range_schema lo hi v =
     (case v of Some (JNum r) \<Rightarrow> if lo \<le> r \<and> r \<le> hi then Some r else None | _ \<Rightarrow> None)"

text \<open>
  Modelled from the spec: the dispatch of a \<open>get-forecast\<close> call by the RPC server library,
  which is not part of the source. The arguments are validated by the adapter's schema layer
  (latitude between -90 and 90, longitude between -180 and 180, as the source declares them)
  before the handler is called; arguments the schema refuses are answered with an
  invalid-parameters error and the handler does not run.
\<close>

definition call_get_forecast ::
  "(rat \<Rightarrow> string) \<Rightarrow> (json \<Rightarrow> string) \<Rightarrow> upstream \<Rightarrow> (string \<times> json) list \<Rightarrow> json list
     \<Rightarrow> tool_result \<times> json list" where
  "call_get_forecast num_to_string stringify net args calls =
     (case number_range_schema (- 90) 90 (map_of args ''latitude'') of
        None \<Rightarrow> (InvalidParams, calls)
      | Some latitude \<Rightarrow>
          (case number_range_schema (- 180) 180 (map_of args ''longitude'') of
             None \<Rightarrow> (InvalidParams, calls)
           | Some longitude \<Rightarrow> get_forecast num_to_string stringify net latitude longitude calls))"

section \<open>Properties of the fetch primitive\<close>

lemma makeNWSRequest_log: "snd (makeNWSRequest net url calls) = calls @ [url]"
  by (simp add: makeNWSRequest_def)

lemma makeNWSRequest_success:
  "net calls url = Response st (Some d) \<Longrightarrow> response_ok st
     \<Longrightarrow> makeNWSRequest net url calls = (d, calls @ [url])"
  by (simp add: makeNWSRequest_def)

text \<open>Only an object has a forecast locator; in particular no falsy value has one.\<close>

lemma properties_forecast_falsy: "\<not> truthy pd \<Longrightarrow> properties_forecast pd = None"
  by (cases pd) (simp_all add: properties_forecast_def)

lemma properties_forecast_truthy: "properties_forecast pd = Some loc \<Longrightarrow> truthy pd"
  by (cases pd) (simp_all add: properties_forecast_def)

subsection \<open>Digits\<close>

lemma floor_rat_numeral_div: "\<lfloor>numeral a / numeral b :: rat\<rfloor> = numeral a div numeral b"
  by (metis floor_divide_of_int_eq of_int_numeral)

lemma digit_char_is_digit: "d < 10 \<Longrightarrow> is_digit (digit_char d)"
proof -
  assume "d < 10"
  then have "d \<in> {0, 1, 2, 3, 4, 5, 6, 7, 8, 9}" by auto
  then show ?thesis by (auto simp: is_digit_def digit_char_def)
qed

lemma digits_of_digits: "list_all is_digit (digits_of n)"
proof (induction n rule: digits_of.induct)
  case (1 n)
  show ?case
  proof (cases "n < 10")
    case True
    then show ?thesis by (subst digits_of.simps) (simp add: digit_char_is_digit)
  next
    case False
    with 1 show ?thesis by (subst digits_of.simps) (simp add: digit_char_is_digit)
  qed
qed

lemma minus_not_digit: "is_digit c \<Longrightarrow> c \<noteq> CHR ''-''"
  by (auto simp: is_digit_def)

lemma fixed_decimals_shape:
  assumes "list_all is_digit a" and "a \<noteq> []" and "list_all is_digit b" and "length b = f"
  shows "fixed_decimals f (a @ ''.'' @ b)" and "fixed_decimals f (''-'' @ a @ ''.'' @ b)"
proof -
  obtain c a' where a: "a = c # a'" using assms(2) by (cases a) auto
  with assms(1) have "c \<noteq> CHR ''-''" by (simp add: minus_not_digit)
  have core: "f + 2 \<le> length (a @ ''.'' @ b)
         \<and> list_all is_digit (take (length (a @ ''.'' @ b) - f - 1) (a @ ''.'' @ b))
         \<and> (a @ ''.'' @ b) ! (length (a @ ''.'' @ b) - f - 1) = CHR ''.''
         \<and> list_all is_digit (drop (length (a @ ''.'' @ b) - f) (a @ ''.'' @ b))"
    using assms by (simp add: a nth_append)
  show "fixed_decimals f (a @ ''.'' @ b)"
    using core \<open>c \<noteq> CHR ''-''\<close> unfolding fixed_decimals_def Let_def by (simp add: a)
  show "fixed_decimals f (''-'' @ a @ ''.'' @ b)"
    using core unfolding fixed_decimals_def Let_def by simp
qed

text \<open>Below \<open>10^21\<close> in absolute value, \<open>toFixed(f)\<close> with \<open>f > 0\<close> writes exactly \<open>f\<close>
  decimal places, whatever the number.\<close>

lemma toFixed_fixed_decimals:
  assumes "0 < f" and "\<bar>x\<bar> < 10 ^ 21"
  shows "fixed_decimals f (toFixed nts f x)"
proof -
  define n where "n = nat \<lfloor>\<bar>x\<bar> * 10 ^ f + 1 / 2\<rfloor>"
  define m where "m = (if length (digits_of n) \<le> f
                       then replicate (f + 1 - length (digits_of n)) (CHR ''0'') @ digits_of n
                       else digits_of n)"
  have zero: "is_digit (CHR ''0'')" by (simp add: is_digit_def)
  have m_digits: "list_all is_digit m"
    using digits_of_digits [of n] zero by (simp add: m_def list_all_iff)
  have m_len: "f + 1 \<le> length m" by (simp add: m_def)
  have a: "list_all is_digit (take (length m - f) m)" "take (length m - f) m \<noteq> []"
    using m_digits m_len by (auto simp: list_all_iff dest: in_set_takeD)
  have b: "list_all is_digit (drop (length m - f) m)" "length (drop (length m - f) m) = f"
    using m_digits m_len by (auto simp: list_all_iff dest: in_set_dropD)
  have ax: "(if x < 0 then - x else x) = \<bar>x\<bar>" by (simp add: abs_if)
  have nb: "\<not> 10 ^ 21 \<le> \<bar>x\<bar>" using assms(2) by (simp only: not_le)
  have eq: "toFixed nts f x
              = (if x < 0 then ''-'' else []) @ take (length m - f) m @ ''.'' @ drop (length m - f) m"
    unfolding toFixed_def Let_def ax using nb assms(1) by (simp only: if_False m_def n_def) simp
  show ?thesis
    using fixed_decimals_shape [OF a b] by (simp add: eq)
qed

lemma toFixed_example_latitude: "toFixed (\<lambda>r. ''n'') 4 (407 / 10) = ''40.7000''"
  by (simp add: toFixed_def Let_def digits_of.simps digit_char_def floor_rat_numeral_div)

lemma toFixed_example_longitude: "toFixed (\<lambda>r. ''n'') 4 (- 74) = ''-74.0000''"
  by (simp add: toFixed_def Let_def digits_of.simps digit_char_def floor_rat_numeral_div)

subsection \<open>Case mapping of ASCII strings\<close>

lemma toUpperCase_ascii: "ascii s \<Longrightarrow> toUpperCase uc s = map upper_char s"
  by (simp add: toUpperCase_def)

lemma toLowerCase_ascii: "ascii s \<Longrightarrow> toLowerCase lc s = map lower_char s"
  by (simp add: toLowerCase_def)

lemma ascii_map_upper: "ascii s \<Longrightarrow> ascii (map upper_char s)"
  by (auto simp: ascii_def upper_char_def list_all_iff)

lemma ascii_map_lower: "ascii s \<Longrightarrow> ascii (map lower_char s)"
  by (auto simp: ascii_def lower_char_def list_all_iff)

lemma upper_lower_char: "upper_char (lower_char c) = upper_char c"
  by (auto simp: upper_char_def lower_char_def)

lemma lower_upper_char: "lower_char (upper_char c) = lower_char c"
  by (auto simp: upper_char_def lower_char_def)

lemma lower_lower_char: "lower_char (lower_char c) = lower_char c"
  by (auto simp: lower_char_def)

lemma upper_char_not_lower_letter: "\<not> lower_letter (upper_char c)"
  by (auto simp: upper_char_def lower_letter_def)

text \<open>Two ASCII spellings that differ only in the case of letters have the same upper-case
  form.\<close>

lemma map_upper_recased:
  assumes "map lower_char v = map lower_char r"
  shows "map upper_char v = map upper_char r"
proof -
  have "map upper_char v = map upper_char (map lower_char v)"
    by (simp add: upper_lower_char)
  also have "\<dots> = map upper_char (map lower_char r)" by (simp only: assms)
  also have "\<dots> = map upper_char r" by (simp add: upper_lower_char)
  finally show ?thesis .
qed

lemma toUpperCase_ca: "toUpperCase uc ''ca'' = ''CA''"
  by (simp add: toUpperCase_def ascii_def upper_char_def char_of_eq_iff)

lemma toLowerCase_Ca: "toLowerCase lc ''Ca'' = ''ca''"
  by (simp add: toLowerCase_def ascii_def lower_char_def char_of_eq_iff)

lemma toLowerCase_ca: "toLowerCase lc ''ca'' = ''ca''"
  by (simp add: toLowerCase_def ascii_def lower_char_def char_of_eq_iff)

subsection \<open>Failure of a fetch\<close>



section \<open>The forecast chain\<close>

text \<open>
  C4. In a forecast resolution on any of the three surfaces, when the points lookup gives a
  falsy result (the fetch failed) or a document without a truthy \<open>properties.forecast\<close>,
  the forecast document is not fetched: the request log is extended by the points lookup
  alone, or not at all (the REST route when a parameter is missing). On the REST route the
  points lookup exists only when both query values convert to text; when a conversion
  throws, no request is made at all.
\<close>

theorem forecast_chain_short_circuits:
  "(q_template lat = Some a \<and> q_template lon = Some b
      \<and> (\<not> truthy (fst (makeNWSRequest net (JStr (rest_points_url a b)) calls))
         \<or> \<not> truthy_opt (properties_forecast
               (fst (makeNWSRequest net (JStr (rest_points_url a b)) calls))))
     \<longrightarrow> snd (rest_forecast net lat lon calls) = calls
         \<or> snd (rest_forecast net lat lon calls) = calls @ [JStr (rest_points_url a b)])
   \<and> (q_template lat = None \<or> q_template lon = None
     \<longrightarrow> snd (rest_forecast net lat lon calls) = calls)
   \<and> (\<not> truthy (fst (makeNWSRequest net (JStr (tool_points_url nts la lo)) calls))
      \<or> \<not> truthy_opt (properties_forecast
             (fst (makeNWSRequest net (JStr (tool_points_url nts la lo)) calls)))
     \<longrightarrow> snd (get_forecast nts sfy net la lo calls) = calls @ [JStr (tool_points_url nts la lo)])
   \<and> (parse_url u = Some ps \<and> map_of ps ''type'' = Some ''forecast''
       \<and> (\<not> truthy (fst (makeNWSRequest net
               (JStr (resource_points_url (map_of ps ''latitude'') (map_of ps ''longitude''))) calls))
          \<or> \<not> truthy_opt (properties_forecast (fst (makeNWSRequest net
               (JStr (resource_points_url (map_of ps ''latitude'') (map_of ps ''longitude''))) calls))))
     \<longrightarrow> snd (weather_data_resource uc parse_url sfy net u calls) = calls
         \<or> snd (weather_data_resource uc parse_url sfy net u calls)
             = calls @ [JStr (resource_points_url (map_of ps ''latitude'') (map_of ps ''longitude''))])"
proof (intro conjI impI)
  assume "q_template lat = Some a \<and> q_template lon = Some b
      \<and> (\<not> truthy (fst (makeNWSRequest net (JStr (rest_points_url a b)) calls))
         \<or> \<not> truthy_opt (properties_forecast
               (fst (makeNWSRequest net (JStr (rest_points_url a b)) calls))))"
  then show "snd (rest_forecast net lat lon calls) = calls
         \<or> snd (rest_forecast net lat lon calls) = calls @ [JStr (rest_points_url a b)]"
    by (auto simp: rest_forecast_def Let_def case_prod_unfold makeNWSRequest_log
        split: option.splits)
next
  assume "q_template lat = None \<or> q_template lon = None"
  then show "snd (rest_forecast net lat lon calls) = calls"
    by (auto simp: rest_forecast_def split: option.splits)
next
  assume "\<not> truthy (fst (makeNWSRequest net (JStr (tool_points_url nts la lo)) calls))
      \<or> \<not> truthy_opt (properties_forecast
             (fst (makeNWSRequest net (JStr (tool_points_url nts la lo)) calls)))"
  then show "snd (get_forecast nts sfy net la lo calls) = calls @ [JStr (tool_points_url nts la lo)]"
    by (auto simp: get_forecast_def Let_def case_prod_unfold makeNWSRequest_log
        split: option.splits)
next
  assume "parse_url u = Some ps \<and> map_of ps ''type'' = Some ''forecast''
       \<and> (\<not> truthy (fst (makeNWSRequest net
               (JStr (resource_points_url (map_of ps ''latitude'') (map_of ps ''longitude''))) calls))
          \<or> \<not> truthy_opt (properties_forecast (fst (makeNWSRequest net
               (JStr (resource_points_url (map_of ps ''latitude'') (map_of ps ''longitude''))) calls))))"
  then show "snd (weather_data_resource uc parse_url sfy net u calls) = calls
         \<or> snd (weather_data_resource uc parse_url sfy net u calls)
             = calls @ [JStr (resource_points_url (map_of ps ''latitude'') (map_of ps ''longitude''))]"
    by (auto simp: weather_data_resource_def Let_def case_prod_unfold makeNWSRequest_log
        split: option.splits dest: properties_forecast_falsy)
qed

theorem forecast_chain_short_circuits_witness:
  "q_template (Some (QStr ''40.7128'')) = Some ''40.7128''
   \<and> \<not> truthy_opt (properties_forecast (fst (makeNWSRequest
        (\<lambda>c u. Response 200 (Some (JObj [(''properties'', JObj [])])))
        (JStr (rest_points_url ''40.7128'' ''-74.0060'')) [])))
   \<and> snd (rest_forecast (\<lambda>c u. Response 200 (Some (JObj [(''properties'', JObj [])])))
          (Some (QStr ''40.7128'')) (Some (QStr ''-74.0060'')) [])
       = [JStr (rest_points_url ''40.7128'' ''-74.0060'')]
   \<and> q_template (Some (QObj [(''toString'', QStr ''x'')])) = None
   \<and> snd (rest_forecast (\<lambda>c u. Response 200 (Some (JObj [(''properties'', JObj [])])))
          (Some (QObj [(''toString'', QStr ''x'')])) (Some (QStr ''-74.0060'')) []) = []
   \<and> snd (get_forecast (\<lambda>r. ''n'') (\<lambda>d. ''{}'')
          (\<lambda>c u. Response 200 (Some (JObj [(''properties'', JObj [])]))) 40 (- 74) [])
       = [JStr (tool_points_url (\<lambda>r. ''n'') 40 (- 74))]
   \<and> snd (weather_data_resource (\<lambda>s. s)
          (\<lambda>u. Some [(''type'', ''forecast''), (''latitude'', ''40''), (''longitude'', ''-74'')])
          (\<lambda>d. ''{}'') (\<lambda>c u. Response 200 (Some (JObj [(''properties'', JObj [])])))
          ''weather-data'' [])
       = [JStr (resource_points_url (Some ''40'') (Some ''-74''))]"
  using forecast_chain_short_circuits
      [where net = "\<lambda>c u. Response 200 (Some (JObj [(''properties'', JObj [])]))"
        and lat = "Some (QStr ''40.7128'')" and lon = "Some (QStr ''-74.0060'')"
        and a = "''40.7128''" and b = "''-74.0060''" and calls = "[]"
        and nts = "\<lambda>r. ''n''" and la = 40 and lo = "- 74" and sfy = "\<lambda>d. ''{}''"
        and uc = "\<lambda>s. s"
        and parse_url = "\<lambda>u. Some [(''type'', ''forecast''), (''latitude'', ''40''),
                                (''longitude'', ''-74'')]"
        and u = "''weather-data''"
        and ps = "[(''type'', ''forecast''), (''latitude'', ''40''), (''longitude'', ''-74'')]"]
    forecast_chain_short_circuits
      [where net = "\<lambda>c u. Response 200 (Some (JObj [(''properties'', JObj [])]))"
        and lat = "Some (QObj [(''toString'', QStr ''x'')])" and lon = "Some (QStr ''-74.0060'')"
        and calls = "[]"]
  by (simp add: makeNWSRequest_def response_ok_def properties_forecast_def rest_forecast_def
      weather_data_resource_def Let_def)

text \<open>
  C9. On the REST route, when both parameters are present and convert to text, the points
  lookup answers with a success status and a truthy document that has a truthy
  \<open>properties.forecast\<close>, and the fetch of that locator answers with a success status and a
  truthy document, the response is status 200 with that document as its body, as received;
  the two requests made are the points lookup and the locator.
\<close>

theorem rest_forecast_document_unchanged:
  assumes "q_truthy lat" and "q_truthy lon"
    and "q_template lat = Some a" and "q_template lon = Some b"
    and "net calls (JStr (rest_points_url a b)) = Response st1 (Some pd)"
    and "response_ok st1" and "truthy pd"
    and "properties_forecast pd = Some loc" and "truthy loc"
    and "net (calls @ [JStr (rest_points_url a b)]) loc = Response st2 (Some fd)"
    and "response_ok st2" and "truthy fd"
  shows "rest_forecast net lat lon calls
           = (\<lparr>status = 200, body = fd\<rparr>, calls @ [JStr (rest_points_url a b), loc])"
  using assms by (simp add: rest_forecast_def Let_def makeNWSRequest_success)

theorem rest_forecast_document_unchanged_witness:
  "rest_forecast
     (\<lambda>c u. if u = JStr ''https://api.weather.gov/gridpoints/OKX/33,35/forecast''
            then Response 200 (Some (JObj [(''properties'', JObj [(''periods'', JArr [])])]))
            else Response 200 (Some (JObj [(''properties'', JObj [(''forecast'',
                   JStr ''https://api.weather.gov/gridpoints/OKX/33,35/forecast'')])])))
     (Some (QStr ''40.7128'')) (Some (QStr ''-74.0060'')) []
   = (\<lparr>status = 200, body = JObj [(''properties'', JObj [(''periods'', JArr [])])]\<rparr>,
      [JStr (rest_points_url ''40.7128'' ''-74.0060''),
       JStr ''https://api.weather.gov/gridpoints/OKX/33,35/forecast''])"
  using rest_forecast_document_unchanged
    [where net = "\<lambda>c u. if u = JStr ''https://api.weather.gov/gridpoints/OKX/33,35/forecast''
            then Response 200 (Some (JObj [(''properties'', JObj [(''periods'', JArr [])])]))
            else Response 200 (Some (JObj [(''properties'', JObj [(''forecast'',
                   JStr ''https://api.weather.gov/gridpoints/OKX/33,35/forecast'')])]))"
      and lat = "Some (QStr ''40.7128'')" and lon = "Some (QStr ''-74.0060'')" and calls = "[]"
      and a = "''40.7128''" and b = "''-74.0060''"
      and ?st1.0 = 200 and ?st2.0 = 200
      and pd = "JObj [(''properties'', JObj [(''forecast'',
                   JStr ''https://api.weather.gov/gridpoints/OKX/33,35/forecast'')])]"
      and loc = "JStr ''https://api.weather.gov/gridpoints/OKX/33,35/forecast''"
      and fd = "JObj [(''properties'', JObj [(''periods'', JArr [])])]"]
  by (simp add: response_ok_def properties_forecast_def rest_points_url_def NWS_API_BASE_def)

section \<open>Alerts\<close>

text \<open>
  C8. When the alerts fetch answers with a success status and a document whose \<open>features\<close>
  is the empty array, no surface reports a failure: the REST route answers 200 with the
  document, the resource returns the document's text, and the tool, which renders the
  result, answers that there are no active alerts.
\<close>

theorem alerts_zero_features_is_success:
  assumes "net calls (JStr (NWS_API_BASE @ ''/alerts?area='' @ toUpperCase uc state))
             = Response st (Some (JObj kvs))"
    and "response_ok st"
    and "map_of kvs ''features'' = Some (JArr [])"
  shows "rest_alerts uc net state calls
           = (\<lparr>status = 200, body = JObj kvs\<rparr>,
              calls @ [JStr (NWS_API_BASE @ ''/alerts?area='' @ toUpperCase uc state)])
       \<and> get_alerts uc sfy net state calls
           = (Content (''No active alerts for '' @ toUpperCase uc state),
              calls @ [JStr (NWS_API_BASE @ ''/alerts?area='' @ toUpperCase uc state)])
       \<and> (parse_url u = Some ps \<and> map_of ps ''type'' = Some ''alerts''
            \<and> map_of ps ''state'' = Some state \<and> state \<noteq> []
          \<longrightarrow> weather_data_resource uc parse_url sfy net u calls
               = (Inr \<lparr>res_uri = u, res_mimeType = ''application/json'',
                       res_text = sfy (JObj kvs)\<rparr>,
                  calls @ [JStr (NWS_API_BASE @ ''/alerts?area='' @ toUpperCase uc state)]))"
  using assms
  by (simp add: rest_alerts_def get_alerts_def weather_data_resource_def Let_def
      makeNWSRequest_success)

theorem alerts_zero_features_is_success_witness:
  "rest_alerts (\<lambda>s. s) (\<lambda>c u. Response 200 (Some (JObj [(''features'', JArr [])]))) ''ca'' []
     = (\<lparr>status = 200, body = JObj [(''features'', JArr [])]\<rparr>,
        [JStr (NWS_API_BASE @ ''/alerts?area='' @ toUpperCase (\<lambda>s. s) ''ca'')])
   \<and> get_alerts (\<lambda>s. s) (\<lambda>d. ''{}'')
        (\<lambda>c u. Response 200 (Some (JObj [(''features'', JArr [])]))) ''ca'' []
     = (Content (''No active alerts for '' @ toUpperCase (\<lambda>s. s) ''ca''),
        [JStr (NWS_API_BASE @ ''/alerts?area='' @ toUpperCase (\<lambda>s. s) ''ca'')])
   \<and> weather_data_resource (\<lambda>s. s) (\<lambda>u. Some [(''type'', ''alerts''), (''state'', ''ca'')])
        (\<lambda>d. ''{}'') (\<lambda>c u. Response 200 (Some (JObj [(''features'', JArr [])])))
        ''weather-data'' []
     = (Inr \<lparr>res_uri = ''weather-data'', res_mimeType = ''application/json'',
             res_text = ''{}''\<rparr>,
        [JStr (NWS_API_BASE @ ''/alerts?area='' @ toUpperCase (\<lambda>s. s) ''ca'')])"
  using alerts_zero_features_is_success
    [where net = "\<lambda>c u. Response 200 (Some (JObj [(''features'', JArr [])]))"
      and calls = "[]" and state = "''ca''" and st = 200 and kvs = "[(''features'', JArr [])]"
      and sfy = "\<lambda>d. ''{}''" and uc = "\<lambda>s. s"
      and parse_url = "\<lambda>u. Some [(''type'', ''alerts''), (''state'', ''ca'')]"
      and u = "''weather-data''" and ps = "[(''type'', ''alerts''), (''state'', ''ca'')]"]
  by (simp add: response_ok_def)

section \<open>The REST route's parameter check\<close>

text \<open>
  C7, as the code has it. A request to \<open>GET /forecast\<close> in which the latitude or the
  longitude is missing (absent, or present and empty) is answered with status 400 and no
  request is made upstream. The check is on the query values as received: they are not
  parsed as numbers and the route has no range validation. When both are present the status
  is never 400; when both convert to text, the points lookup is issued with the two texts as
  they are, and a string converts to itself.
\<close>

theorem rest_forecast_missing_parameter:
  "(\<not> q_truthy lat \<or> \<not> q_truthy lon
     \<longrightarrow> rest_forecast net lat lon calls
           = (\<lparr>status = 400, body = error_body ''Latitude and longitude are required''\<rparr>, calls))
   \<and> (q_truthy lat \<and> q_truthy lon
     \<longrightarrow> status (fst (rest_forecast net lat lon calls)) \<noteq> 400)
   \<and> (q_truthy lat \<and> q_truthy lon \<and> q_template lat = Some a \<and> q_template lon = Some b
     \<longrightarrow> (\<exists>rest. snd (rest_forecast net lat lon calls)
               = calls @ JStr (NWS_API_BASE @ ''/points/'' @ a @ '','' @ b) # rest))
   \<and> q_template (Some (QStr s)) = Some s"
  by (auto simp: rest_forecast_def rest_points_url_def Let_def case_prod_unfold makeNWSRequest_log
      split: option.splits)

theorem rest_forecast_missing_parameter_witness:
  "\<not> q_truthy None
   \<and> rest_forecast (\<lambda>c u. TransportFailure) (Some (QStr ''40.7128'')) None []
       = (\<lparr>status = 400, body = error_body ''Latitude and longitude are required''\<rparr>, [])
   \<and> \<not> q_truthy (Some (QStr []))
   \<and> rest_forecast (\<lambda>c u. TransportFailure) (Some (QStr [])) (Some (QStr ''-74.0060'')) []
       = (\<lparr>status = 400, body = error_body ''Latitude and longitude are required''\<rparr>, [])
   \<and> q_truthy (Some (QStr ''40.7128'')) \<and> q_truthy (Some (QStr ''-74.0060''))
   \<and> status (fst (rest_forecast (\<lambda>c u. TransportFailure) (Some (QStr ''40.7128''))
         (Some (QStr ''-74.0060'')) [])) \<noteq> 400
   \<and> (\<exists>rest. snd (rest_forecast (\<lambda>c u. TransportFailure) (Some (QStr ''40.7128''))
         (Some (QStr ''-74.0060'')) [])
        = JStr (NWS_API_BASE @ ''/points/'' @ ''40.7128'' @ '','' @ ''-74.0060'') # rest)"
  using rest_forecast_missing_parameter
      [of "Some (QStr ''40.7128'')" None "\<lambda>c u. TransportFailure" "[]"]
    rest_forecast_missing_parameter
      [of "Some (QStr [])" "Some (QStr ''-74.0060'')" "\<lambda>c u. TransportFailure" "[]"]
    rest_forecast_missing_parameter
      [of "Some (QStr ''40.7128'')" "Some (QStr ''-74.0060'')" "\<lambda>c u. TransportFailure" "[]"
        "''40.7128''" "''-74.0060''"]
  by simp

text \<open>
  C7 as stated fails: the route does not parse the parameters as numbers and validates no
  range. The latitude \<open>abc\<close>, which is no number, and the longitude \<open>1e1\<close>, which as a
  number would print as 10, go into the points URL letter for letter, and the request is
  made; so do the latitude 91 and the longitude 181, which are out of range.
\<close>

theorem rest_forecast_not_parsed_as_numbers:
  "rest_forecast (\<lambda>c u. Response 404 None) (Some (QStr ''abc'')) (Some (QStr ''1e1'')) []
     = (\<lparr>status = 500,
         body = error_body ''Failed to retrieve grid point data for coordinates: abc, 1e1''\<rparr>,
        [JStr ''https://api.weather.gov/points/abc,1e1''])
   \<and> rest_forecast (\<lambda>c u. Response 404 None) (Some (QStr ''91'')) (Some (QStr ''181'')) []
     = (\<lparr>status = 500,
         body = error_body ''Failed to retrieve grid point data for coordinates: 91, 181''\<rparr>,
        [JStr ''https://api.weather.gov/points/91,181''])"
  by (simp add: rest_forecast_def rest_points_url_def NWS_API_BASE_def makeNWSRequest_def
      response_ok_def Let_def)

section \<open>The resource handler's single error\<close>

text \<open>
  C10. A read of the \<open>weather-data\<close> resource whose \<open>type\<close> is neither \<open>alerts\<close> nor
  \<open>forecast\<close> (or is absent), or whose type is \<open>alerts\<close> without a state, or \<open>forecast\<close>
  without a latitude or a longitude (absent or empty), makes no request upstream and throws
  the error \<open>Failed to retrieve weather data\<close>. The same error, after one request, is what
  a failed alerts fetch and a failed points lookup give: invalid arguments have no error of
  their own on this surface.
\<close>

theorem resource_invalid_arguments_generic_error:
  "(parse_url u = Some ps
     \<and> ((map_of ps ''type'' \<noteq> Some ''alerts'' \<and> map_of ps ''type'' \<noteq> Some ''forecast'')
        \<or> (map_of ps ''type'' = Some ''alerts'' \<and> \<not> str_truthy (map_of ps ''state''))
        \<or> (map_of ps ''type'' = Some ''forecast''
            \<and> (\<not> str_truthy (map_of ps ''latitude'') \<or> \<not> str_truthy (map_of ps ''longitude''))))
    \<longrightarrow> weather_data_resource uc parse_url sfy net u calls
          = (Inl (Error ''Failed to retrieve weather data''), calls))
   \<and> (parse_url u = Some ps \<and> map_of ps ''type'' = Some ''alerts''
        \<and> map_of ps ''state'' = Some state \<and> state \<noteq> []
        \<and> \<not> truthy (fst (makeNWSRequest net
              (JStr (NWS_API_BASE @ ''/alerts?area='' @ toUpperCase uc state)) calls))
    \<longrightarrow> weather_data_resource uc parse_url sfy net u calls
          = (Inl (Error ''Failed to retrieve weather data''),
             calls @ [JStr (NWS_API_BASE @ ''/alerts?area='' @ toUpperCase uc state)]))
   \<and> (parse_url u = Some ps \<and> map_of ps ''type'' = Some ''forecast''
        \<and> str_truthy (map_of ps ''latitude'') \<and> str_truthy (map_of ps ''longitude'')
        \<and> \<not> truthy (fst (makeNWSRequest net
              (JStr (resource_points_url (map_of ps ''latitude'') (map_of ps ''longitude''))) calls))
    \<longrightarrow> weather_data_resource uc parse_url sfy net u calls
          = (Inl (Error ''Failed to retrieve weather data''),
             calls @ [JStr (resource_points_url (map_of ps ''latitude'') (map_of ps ''longitude''))]))"
  by (auto simp: weather_data_resource_def Let_def case_prod_unfold makeNWSRequest_log
      split: option.splits dest: properties_forecast_truthy)

theorem resource_invalid_arguments_generic_error_witness:
  "weather_data_resource (\<lambda>s. s) (\<lambda>u. Some [(''type'', ''radar''), (''state'', ''CA'')])
       (\<lambda>d. ''{}'') (\<lambda>c u. Response 200 (Some (JObj []))) ''weather-data'' []
     = (Inl (Error ''Failed to retrieve weather data''), [])
   \<and> weather_data_resource (\<lambda>s. s) (\<lambda>u. Some [(''type'', ''alerts'')]) (\<lambda>d. ''{}'')
       (\<lambda>c u. Response 200 (Some (JObj []))) ''weather-data'' []
     = (Inl (Error ''Failed to retrieve weather data''), [])
   \<and> weather_data_resource (\<lambda>s. s)
       (\<lambda>u. Some [(''type'', ''forecast''), (''latitude'', ''40.7128'')])
       (\<lambda>d. ''{}'') (\<lambda>c u. Response 200 (Some (JObj []))) ''weather-data'' []
     = (Inl (Error ''Failed to retrieve weather data''), [])
   \<and> weather_data_resource (\<lambda>s. s) (\<lambda>u. Some [(''type'', ''alerts''), (''state'', ''CA'')])
       (\<lambda>d. ''{}'') (\<lambda>c u. TransportFailure) ''weather-data'' []
     = (Inl (Error ''Failed to retrieve weather data''),
        [JStr (NWS_API_BASE @ ''/alerts?area='' @ toUpperCase (\<lambda>s. s) ''CA'')])
   \<and> weather_data_resource (\<lambda>s. s)
       (\<lambda>u. Some [(''type'', ''forecast''), (''latitude'', ''40''), (''longitude'', ''-74'')])
       (\<lambda>d. ''{}'') (\<lambda>c u. TransportFailure) ''weather-data'' []
     = (Inl (Error ''Failed to retrieve weather data''),
        [JStr (resource_points_url (Some ''40'') (Some ''-74''))])"
  using resource_invalid_arguments_generic_error
      [where parse_url = "\<lambda>u. Some [(''type'', ''radar''), (''state'', ''CA'')]"
        and u = "''weather-data''" and ps = "[(''type'', ''radar''), (''state'', ''CA'')]"
        and uc = "\<lambda>s. s"
        and sfy = "\<lambda>d. ''{}''" and net = "\<lambda>c u. Response 200 (Some (JObj []))" and calls = "[]"]
    resource_invalid_arguments_generic_error
      [where parse_url = "\<lambda>u. Some [(''type'', ''alerts'')]"
        and u = "''weather-data''" and ps = "[(''type'', ''alerts'')]"
        and uc = "\<lambda>s. s"
        and sfy = "\<lambda>d. ''{}''" and net = "\<lambda>c u. Response 200 (Some (JObj []))" and calls = "[]"]
    resource_invalid_arguments_generic_error
      [where parse_url = "\<lambda>u. Some [(''type'', ''forecast''), (''latitude'', ''40.7128'')]"
        and u = "''weather-data''" and ps = "[(''type'', ''forecast''), (''latitude'', ''40.7128'')]"
        and uc = "\<lambda>s. s"
        and sfy = "\<lambda>d. ''{}''" and net = "\<lambda>c u. Response 200 (Some (JObj []))" and calls = "[]"]
    resource_invalid_arguments_generic_error
      [where parse_url = "\<lambda>u. Some [(''type'', ''alerts''), (''state'', ''CA'')]"
        and u = "''weather-data''" and ps = "[(''type'', ''alerts''), (''state'', ''CA'')]"
        and state = "''CA''" and uc = "\<lambda>s. s"
        and sfy = "\<lambda>d. ''{}''" and net = "\<lambda>c u. TransportFailure" and calls = "[]"]
    resource_invalid_arguments_generic_error
      [where parse_url = "\<lambda>u. Some [(''type'', ''forecast''), (''latitude'', ''40''),
                              (''longitude'', ''-74'')]"
        and u = "''weather-data''"
        and ps = "[(''type'', ''forecast''), (''latitude'', ''40''), (''longitude'', ''-74'')]"
        and uc = "\<lambda>s. s"
        and sfy = "\<lambda>d. ''{}''" and net = "\<lambda>c u. TransportFailure" and calls = "[]"]
  by (simp add: makeNWSRequest_def)

section \<open>Range validation and coordinate formatting\<close>

text \<open>
  C1, as the code has it. A \<open>get-forecast\<close> tool call whose latitude is outside [-90, 90]
  or whose longitude is outside [-180, 180] is refused by the parameter schema: the result
  is the invalid-parameters error and no request is made. The REST route and the resource
  handler have no range check. On the REST route, whenever both values are present and
  convert to text, the points lookup is issued, built from the two texts; when a conversion
  throws, the route answers 500 and makes no request. On the resource, whenever both values
  are present, the points lookup is issued, built from the values as given.
\<close>

theorem get_forecast_range_validation:
  "(la < - 90 \<or> 90 < la \<longrightarrow> number_range_schema (- 90) 90 (Some (JNum la)) = None)
   \<and> (lo < - 180 \<or> 180 < lo \<longrightarrow> number_range_schema (- 180) 180 (Some (JNum lo)) = None)
   \<and> (map_of args ''latitude'' = Some (JNum la) \<and> map_of args ''longitude'' = Some (JNum lo)
      \<and> (la < - 90 \<or> 90 < la \<or> lo < - 180 \<or> 180 < lo)
     \<longrightarrow> call_get_forecast nts sfy net args calls = (InvalidParams, calls))
   \<and> (q_truthy lat \<and> q_truthy lon \<and> q_template lat = Some a \<and> q_template lon = Some b
     \<longrightarrow> (\<exists>rest. snd (rest_forecast net lat lon calls)
                  = calls @ JStr (rest_points_url a b) # rest))
   \<and> (q_truthy lat \<and> q_truthy lon \<and> (q_template lat = None \<or> q_template lon = None)
     \<longrightarrow> rest_forecast net lat lon calls
           = (\<lparr>status = 500, body = error_body to_primitive_error_message\<rparr>, calls))
   \<and> (parse_url u = Some ps \<and> map_of ps ''type'' = Some ''forecast''
        \<and> str_truthy (map_of ps ''latitude'') \<and> str_truthy (map_of ps ''longitude'')
     \<longrightarrow> (\<exists>rest. snd (weather_data_resource uc parse_url sfy net u calls)
                  = calls @ JStr (resource_points_url (map_of ps ''latitude'')
                                    (map_of ps ''longitude'')) # rest))"
  by (auto simp: call_get_forecast_def number_range_schema_def rest_forecast_def
      weather_data_resource_def Let_def case_prod_unfold makeNWSRequest_log
      split: option.splits)

theorem get_forecast_range_validation_witness:
  "number_range_schema (- 90) 90 (Some (JNum 999)) = None
   \<and> number_range_schema (- 180) 180 (Some (JNum (- 181))) = None
   \<and> call_get_forecast (\<lambda>r. ''n'') (\<lambda>d. ''{}'') (\<lambda>c u. Response 200 (Some (JObj [])))
       [(''latitude'', JNum 999), (''longitude'', JNum 0)] [] = (InvalidParams, [])
   \<and> call_get_forecast (\<lambda>r. ''n'') (\<lambda>d. ''{}'') (\<lambda>c u. Response 200 (Some (JObj [])))
       [(''latitude'', JNum 40), (''longitude'', JNum (- 181))] [] = (InvalidParams, [])
   \<and> (\<exists>rest. snd (rest_forecast (\<lambda>c u. Response 200 (Some (JObj [])))
                    (Some (QStr ''999'')) (Some (QStr ''0'')) [])
         = JStr (rest_points_url ''999'' ''0'') # rest)
   \<and> rest_forecast (\<lambda>c u. Response 200 (Some (JObj [])))
        (Some (QObj [(''toString'', QStr ''x'')])) (Some (QStr ''0'')) []
       = (\<lparr>status = 500, body = error_body to_primitive_error_message\<rparr>, [])
   \<and> (\<exists>rest. snd (weather_data_resource (\<lambda>s. s)
                    (\<lambda>u. Some [(''type'', ''forecast''), (''latitude'', ''999''),
                                (''longitude'', ''0'')])
                    (\<lambda>d. ''{}'') (\<lambda>c u. Response 200 (Some (JObj []))) ''weather-data'' [])
         = JStr (resource_points_url (Some ''999'') (Some ''0'')) # rest)"
  using get_forecast_range_validation
      [where args = "[(''latitude'', JNum 999), (''longitude'', JNum 0)]" and la = 999 and lo = 0
        and nts = "\<lambda>r. ''n''" and sfy = "\<lambda>d. ''{}''" and uc = "\<lambda>s. s"
        and net = "\<lambda>c u. Response 200 (Some (JObj []))" and calls = "[]"
        and lat = "Some (QStr ''999'')" and lon = "Some (QStr ''0'')"
        and a = "''999''" and b = "''0''"
        and parse_url = "\<lambda>u. Some [(''type'', ''forecast''), (''latitude'', ''999''),
                                (''longitude'', ''0'')]"
        and u = "''weather-data''"
        and ps = "[(''type'', ''forecast''), (''latitude'', ''999''), (''longitude'', ''0'')]"]
    get_forecast_range_validation
      [where args = "[(''latitude'', JNum 40), (''longitude'', JNum (- 181))]"
        and la = 40 and lo = "- 181"
        and nts = "\<lambda>r. ''n''" and sfy = "\<lambda>d. ''{}''"
        and net = "\<lambda>c u. Response 200 (Some (JObj []))" and calls = "[]"
        and lat = "Some (QObj [(''toString'', QStr ''x'')])" and lon = "Some (QStr ''0'')"]
  by simp

text \<open>
  C1 as stated fails on the REST route: for latitude 999 and longitude 0 the route issues the
  points lookup, and answers with the status and message of a failed lookup when the
  provider refuses it.
\<close>

theorem rest_forecast_out_of_range_is_fetched:
  "rest_forecast (\<lambda>c u. Response 400 None) (Some (QStr ''999'')) (Some (QStr ''0'')) []
     = (\<lparr>status = 500,
         body = error_body ''Failed to retrieve grid point data for coordinates: 999, 0''\<rparr>,
        [JStr ''https://api.weather.gov/points/999,0''])"
  by (simp add: rest_forecast_def rest_points_url_def NWS_API_BASE_def makeNWSRequest_def
      response_ok_def Let_def)

text \<open>
  C2, as the code has it. The \<open>get-forecast\<close> tool, given a latitude in [-90, 90] and a
  longitude in [-180, 180], issues, as its first request, the points lookup whose URL holds
  \<open>latitude.toFixed(4)\<close> and \<open>longitude.toFixed(4)\<close>, and each of the two has exactly four
  decimal places, whatever the precision of the number. The REST route, given a latitude
  string and a longitude string, and the resource, given a latitude and a longitude, put the
  two strings into the URL of the points lookup as they were given.
\<close>

theorem get_forecast_points_url_four_decimals:
  "(- 90 \<le> latitude \<and> latitude \<le> 90 \<and> - 180 \<le> longitude \<and> longitude \<le> 180
     \<longrightarrow> (\<exists>rest. snd (get_forecast nts sfy net latitude longitude calls)
            = calls @ JStr (NWS_API_BASE @ ''/points/'' @ toFixed nts 4 latitude @ '',''
                              @ toFixed nts 4 longitude) # rest)
         \<and> fixed_decimals 4 (toFixed nts 4 latitude)
         \<and> fixed_decimals 4 (toFixed nts 4 longitude))
   \<and> (a \<noteq> [] \<and> b \<noteq> []
     \<longrightarrow> (\<exists>rest. snd (rest_forecast net (Some (QStr a)) (Some (QStr b)) calls)
            = calls @ JStr (NWS_API_BASE @ ''/points/'' @ a @ '','' @ b) # rest))
   \<and> (parse_url u = Some ps \<and> map_of ps ''type'' = Some ''forecast''
        \<and> map_of ps ''latitude'' = Some a \<and> map_of ps ''longitude'' = Some b
        \<and> a \<noteq> [] \<and> b \<noteq> []
     \<longrightarrow> (\<exists>rest. snd (weather_data_resource uc parse_url sfy net u calls)
            = calls @ JStr (NWS_API_BASE @ ''/points/'' @ a @ '','' @ b) # rest))"
proof (intro conjI impI)
  assume range: "- 90 \<le> latitude \<and> latitude \<le> 90 \<and> - 180 \<le> longitude \<and> longitude \<le> 180"
  then have "\<bar>latitude\<bar> < 10 ^ 21" and "\<bar>longitude\<bar> < 10 ^ 21"
    by auto
  then show "fixed_decimals 4 (toFixed nts 4 latitude)"
      and "fixed_decimals 4 (toFixed nts 4 longitude)"
    by (simp_all add: toFixed_fixed_decimals)
  show "\<exists>rest. snd (get_forecast nts sfy net latitude longitude calls)
            = calls @ JStr (NWS_API_BASE @ ''/points/'' @ toFixed nts 4 latitude @ '',''
                              @ toFixed nts 4 longitude) # rest"
    by (auto simp: get_forecast_def tool_points_url_def Let_def case_prod_unfold
        makeNWSRequest_log split: option.splits)
next
  assume "a \<noteq> [] \<and> b \<noteq> []"
  then show "\<exists>rest. snd (rest_forecast net (Some (QStr a)) (Some (QStr b)) calls)
            = calls @ JStr (NWS_API_BASE @ ''/points/'' @ a @ '','' @ b) # rest"
    by (auto simp: rest_forecast_def rest_points_url_def Let_def case_prod_unfold
        makeNWSRequest_log split: option.splits)
next
  assume "parse_url u = Some ps \<and> map_of ps ''type'' = Some ''forecast''
        \<and> map_of ps ''latitude'' = Some a \<and> map_of ps ''longitude'' = Some b
        \<and> a \<noteq> [] \<and> b \<noteq> []"
  then show "\<exists>rest. snd (weather_data_resource uc parse_url sfy net u calls)
            = calls @ JStr (NWS_API_BASE @ ''/points/'' @ a @ '','' @ b) # rest"
    by (auto simp: weather_data_resource_def resource_points_url_def Let_def case_prod_unfold
        makeNWSRequest_log split: option.splits)
qed

theorem get_forecast_points_url_four_decimals_witness:
  "snd (get_forecast (\<lambda>r. ''n'') (\<lambda>d. ''{}'') (\<lambda>c u. TransportFailure) (407 / 10) (- 74) [])
     = [JStr ''https://api.weather.gov/points/40.7000,-74.0000'']
   \<and> fixed_decimals 4 (toFixed (\<lambda>r. ''n'') 4 (407 / 10))
   \<and> fixed_decimals 4 (toFixed (\<lambda>r. ''n'') 4 (- 74))
   \<and> snd (rest_forecast (\<lambda>c u. TransportFailure) (Some (QStr ''40.7'')) (Some (QStr ''-74'')) [])
     = [JStr ''https://api.weather.gov/points/40.7,-74'']
   \<and> snd (weather_data_resource (\<lambda>s. s)
            (\<lambda>u. Some [(''type'', ''forecast''), (''latitude'', ''40.7''), (''longitude'', ''-74'')])
            (\<lambda>d. ''{}'') (\<lambda>c u. TransportFailure) ''weather-data'' [])
     = [JStr ''https://api.weather.gov/points/40.7,-74'']"
  using get_forecast_points_url_four_decimals
      [where latitude = "407 / 10" and longitude = "- 74" and nts = "\<lambda>r. ''n''"
        and sfy = "\<lambda>d. ''{}''" and net = "\<lambda>c u. TransportFailure" and calls = "[]"
        and a = "''40.7''" and b = "''-74''" and uc = "\<lambda>s. s"
        and parse_url = "\<lambda>u. Some [(''type'', ''forecast''), (''latitude'', ''40.7''),
                                (''longitude'', ''-74'')]"
        and u = "''weather-data''"
        and ps = "[(''type'', ''forecast''), (''latitude'', ''40.7''), (''longitude'', ''-74'')]"]
  by (simp add: get_forecast_def tool_points_url_def rest_forecast_def rest_points_url_def
      weather_data_resource_def resource_points_url_def properties_forecast_def
      NWS_API_BASE_def makeNWSRequest_def Let_def
      toFixed_example_latitude toFixed_example_longitude)

text \<open>
  C2 as stated fails on the REST route and on the resource: latitude 40.7 and longitude -74
  go into the points URL as they were given, with one and with no decimal place.
\<close>

theorem rest_forecast_points_url_unformatted:
  "snd (rest_forecast (\<lambda>c u. TransportFailure) (Some (QStr ''40.7'')) (Some (QStr ''-74'')) [])
     = [JStr ''https://api.weather.gov/points/40.7,-74'']
   \<and> snd (weather_data_resource (\<lambda>s. s)
            (\<lambda>u. Some [(''type'', ''forecast''), (''latitude'', ''40.7''), (''longitude'', ''-74'')])
            (\<lambda>d. ''{}'') (\<lambda>c u. TransportFailure) ''weather-data'' [])
     = [JStr ''https://api.weather.gov/points/40.7,-74'']
   \<and> \<not> fixed_decimals 4 ''40.7'' \<and> \<not> fixed_decimals 4 ''-74''"
  by (simp add: rest_forecast_def rest_points_url_def weather_data_resource_def
      resource_points_url_def NWS_API_BASE_def makeNWSRequest_def properties_forecast_def
      Let_def fixed_decimals_def is_digit_def)

section \<open>A points document without a forecast locator\<close>




section \<open>Case of the region code\<close>

text \<open>
  C5, as the code has it. For a region code of ASCII characters and any spelling of it that
  differs only in the case of its letters (its lower-case form, its upper-case form, or a
  mixed ASCII one), the alerts operation issues the same request, the alerts-by-area query
  with the upper-case code, and gives the same result, on the REST route, on the tool and
  on the resource; the contents returned by the resource name the URI that was read, and
  agree in everything else. The upper-case code has the length of the region, holds no
  letter a to z, and is a spelling of the region.
\<close>

theorem alerts_case_insensitive_ascii:
  assumes "ascii region"
    and "variant = toLowerCase lc region \<or> variant = toUpperCase uc region
         \<or> (ascii variant \<and> toLowerCase lc variant = toLowerCase lc region)"
  shows "rest_alerts uc net variant calls = rest_alerts uc net region calls
       \<and> snd (rest_alerts uc net variant calls)
           = calls @ [JStr (NWS_API_BASE @ ''/alerts?area='' @ toUpperCase uc region)]
       \<and> get_alerts uc sfy net variant calls = get_alerts uc sfy net region calls
       \<and> snd (get_alerts uc sfy net variant calls)
           = calls @ [JStr (NWS_API_BASE @ ''/alerts?area='' @ toUpperCase uc region)]
       \<and> (parse_url u = Some ps \<and> parse_url u' = Some ps'
            \<and> map_of ps ''type'' = Some ''alerts'' \<and> map_of ps' ''type'' = Some ''alerts''
            \<and> map_of ps ''state'' = Some variant \<and> map_of ps' ''state'' = Some region
            \<and> region \<noteq> []
          \<longrightarrow> snd (weather_data_resource uc parse_url sfy net u calls)
                = calls @ [JStr (NWS_API_BASE @ ''/alerts?area='' @ toUpperCase uc region)]
              \<and> snd (weather_data_resource uc parse_url sfy net u' calls)
                = calls @ [JStr (NWS_API_BASE @ ''/alerts?area='' @ toUpperCase uc region)]
              \<and> fst (weather_data_resource uc parse_url sfy net u calls)
                = map_sum id (\<lambda>c. c\<lparr>res_uri := u\<rparr>)
                    (fst (weather_data_resource uc parse_url sfy net u' calls)))
       \<and> length (toUpperCase uc region) = length region
       \<and> list_all (\<lambda>c. \<not> lower_letter c) (toUpperCase uc region)
       \<and> toLowerCase lc (toUpperCase uc region) = toLowerCase lc region"
proof -
  have up_region: "toUpperCase uc region = map upper_char region"
    using assms(1) by (rule toUpperCase_ascii)
  have low_region: "toLowerCase lc region = map lower_char region"
    using assms(1) by (rule toLowerCase_ascii)
  have var: "ascii variant \<and> map lower_char variant = map lower_char region"
  proof -
    consider (l) "variant = toLowerCase lc region" | (u) "variant = toUpperCase uc region"
      | (m) "ascii variant \<and> toLowerCase lc variant = toLowerCase lc region"
      using assms(2) by blast
    then show ?thesis
    proof cases
      case l
      then show ?thesis
        using assms(1) by (simp add: low_region ascii_map_lower lower_lower_char)
    next
      case u
      then show ?thesis
        using assms(1) by (simp add: up_region ascii_map_upper lower_upper_char)
    next
      case m
      then have av: "ascii variant"
        and eq: "toLowerCase lc variant = toLowerCase lc region"
        by blast+
      have "map lower_char variant = map lower_char region"
        using eq unfolding toLowerCase_ascii [OF av] low_region .
      with av show ?thesis by blast
    qed
  qed
  have "map upper_char variant = map upper_char region"
    using var by (intro map_upper_recased) blast
  then have up: "toUpperCase uc variant = toUpperCase uc region"
    using var by (simp add: toUpperCase_ascii up_region)
  have "length (map lower_char variant) = length (map lower_char region)"
    using var by (simp only:)
  then have len: "length variant = length region"
    by simp
  have rest: "rest_alerts uc net variant calls = rest_alerts uc net region calls"
    by (simp add: rest_alerts_def up)
  have rest_log: "snd (rest_alerts uc net variant calls)
           = calls @ [JStr (NWS_API_BASE @ ''/alerts?area='' @ toUpperCase uc region)]"
    by (simp add: rest_alerts_def up Let_def case_prod_unfold makeNWSRequest_log)
  have tool: "get_alerts uc sfy net variant calls = get_alerts uc sfy net region calls"
    by (simp add: get_alerts_def up)
  have tool_log: "snd (get_alerts uc sfy net variant calls)
           = calls @ [JStr (NWS_API_BASE @ ''/alerts?area='' @ toUpperCase uc region)]"
    by (simp add: get_alerts_def up Let_def case_prod_unfold makeNWSRequest_log)
  have res: "parse_url u = Some ps \<and> parse_url u' = Some ps'
            \<and> map_of ps ''type'' = Some ''alerts'' \<and> map_of ps' ''type'' = Some ''alerts''
            \<and> map_of ps ''state'' = Some variant \<and> map_of ps' ''state'' = Some region
            \<and> region \<noteq> []
          \<longrightarrow> snd (weather_data_resource uc parse_url sfy net u calls)
                = calls @ [JStr (NWS_API_BASE @ ''/alerts?area='' @ toUpperCase uc region)]
              \<and> snd (weather_data_resource uc parse_url sfy net u' calls)
                = calls @ [JStr (NWS_API_BASE @ ''/alerts?area='' @ toUpperCase uc region)]
              \<and> fst (weather_data_resource uc parse_url sfy net u calls)
                = map_sum id (\<lambda>c. c\<lparr>res_uri := u\<rparr>)
                    (fst (weather_data_resource uc parse_url sfy net u' calls))"
  proof
    assume h: "parse_url u = Some ps \<and> parse_url u' = Some ps'
            \<and> map_of ps ''type'' = Some ''alerts'' \<and> map_of ps' ''type'' = Some ''alerts''
            \<and> map_of ps ''state'' = Some variant \<and> map_of ps' ''state'' = Some region
            \<and> region \<noteq> []"
    then have "variant \<noteq> []" using len by auto
    with h show "snd (weather_data_resource uc parse_url sfy net u calls)
                = calls @ [JStr (NWS_API_BASE @ ''/alerts?area='' @ toUpperCase uc region)]
              \<and> snd (weather_data_resource uc parse_url sfy net u' calls)
                = calls @ [JStr (NWS_API_BASE @ ''/alerts?area='' @ toUpperCase uc region)]
              \<and> fst (weather_data_resource uc parse_url sfy net u calls)
                = map_sum id (\<lambda>c. c\<lparr>res_uri := u\<rparr>)
                    (fst (weather_data_resource uc parse_url sfy net u' calls))"
      by (simp add: weather_data_resource_def up Let_def case_prod_unfold makeNWSRequest_log)
  qed
  have pin_len: "length (toUpperCase uc region) = length region"
    by (simp add: up_region)
  have pin_upper: "list_all (\<lambda>c. \<not> lower_letter c) (toUpperCase uc region)"
    by (simp add: up_region list_all_iff upper_char_not_lower_letter)
  have pin_same: "toLowerCase lc (toUpperCase uc region) = toLowerCase lc region"
    using assms(1)
    by (simp add: up_region low_region toLowerCase_ascii ascii_map_upper lower_upper_char)
  show ?thesis
    by (intro conjI rest rest_log tool tool_log res pin_len pin_upper pin_same)
qed

theorem alerts_case_insensitive_ascii_witness:
  "ascii ''ca'' \<and> ascii ''Ca'' \<and> toLowerCase (\<lambda>s. s) ''Ca'' = toLowerCase (\<lambda>s. s) ''ca''
   \<and> rest_alerts (\<lambda>s. s) (\<lambda>c u. Response 200 (Some (JObj [(''features'', JArr [])]))) ''Ca'' []
       = rest_alerts (\<lambda>s. s) (\<lambda>c u. Response 200 (Some (JObj [(''features'', JArr [])]))) ''ca'' []
   \<and> snd (rest_alerts (\<lambda>s. s) (\<lambda>c u. Response 200 (Some (JObj [(''features'', JArr [])])))
            ''Ca'' [])
       = [JStr ''https://api.weather.gov/alerts?area=CA'']
   \<and> get_alerts (\<lambda>s. s) (\<lambda>d. ''{}'')
         (\<lambda>c u. Response 200 (Some (JObj [(''features'', JArr [])]))) ''Ca'' []
       = get_alerts (\<lambda>s. s) (\<lambda>d. ''{}'')
           (\<lambda>c u. Response 200 (Some (JObj [(''features'', JArr [])]))) ''ca'' []
   \<and> snd (weather_data_resource (\<lambda>s. s)
            (\<lambda>u. if u = ''weather-data?type=alerts&state=Ca''
                  then Some [(''type'', ''alerts''), (''state'', ''Ca'')]
                  else Some [(''type'', ''alerts''), (''state'', ''ca'')])
            (\<lambda>d. ''{}'') (\<lambda>c u. Response 200 (Some (JObj [(''features'', JArr [])])))
            ''weather-data?type=alerts&state=Ca'' [])
       = [JStr ''https://api.weather.gov/alerts?area=CA'']
   \<and> toUpperCase (\<lambda>s. s) ''ca'' = ''CA''"
proof -
  have a: "ascii ''ca''" and a': "ascii ''Ca''"
    by (simp_all add: ascii_def)
  have l: "toLowerCase (\<lambda>s. s) ''Ca'' = toLowerCase (\<lambda>s. s) ''ca''"
    by (simp add: toLowerCase_Ca toLowerCase_ca)
  have v: "''Ca'' = toLowerCase (\<lambda>s. s) ''ca'' \<or> ''Ca'' = toUpperCase (\<lambda>s. s) ''ca''
           \<or> (ascii ''Ca'' \<and> toLowerCase (\<lambda>s. s) ''Ca'' = toLowerCase (\<lambda>s. s) ''ca'')"
    using a' l by simp
  have url: "NWS_API_BASE @ ''/alerts?area='' @ toUpperCase (\<lambda>s. s) ''ca''
               = ''https://api.weather.gov/alerts?area=CA''"
    by (simp add: NWS_API_BASE_def toUpperCase_ca)
  show ?thesis
    using a a' l alerts_case_insensitive_ascii
      [where region = "''ca''" and variant = "''Ca''" and lc = "\<lambda>s. s" and uc = "\<lambda>s. s"
        and net = "\<lambda>c u. Response 200 (Some (JObj [(''features'', JArr [])]))" and calls = "[]"
        and sfy = "\<lambda>d. ''{}''"
        and parse_url = "\<lambda>u. if u = ''weather-data?type=alerts&state=Ca''
                    then Some [(''type'', ''alerts''), (''state'', ''Ca'')]
                    else Some [(''type'', ''alerts''), (''state'', ''ca'')]"
        and u = "''weather-data?type=alerts&state=Ca''"
        and u' = "''weather-data?type=alerts&state=ca''"
        and ps = "[(''type'', ''alerts''), (''state'', ''Ca'')]"
        and ps' = "[(''type'', ''alerts''), (''state'', ''ca'')]", OF a v]
    unfolding url
    by (simp (no_asm_use) add: toUpperCase_ca) blast
qed

text \<open>
  C5 as stated fails beyond ASCII. The region made of U+212A KELVIN SIGN followed by the
  letter a (in UTF-8 the bytes E2 84 AA 61) has the lower-case form \<open>ka\<close> and the upper-case
  form U+212A followed by A; these two values of the platform's case mappings are what \<open>lc\<close>
  and \<open>uc\<close> are given as here. Passed in lower case, the region is queried as \<open>area=KA\<close>;
  passed as it is, it is queried with the Kelvin sign: two different requests.
\<close>

theorem alerts_kelvin_sign_two_requests:
  "toLowerCase (\<lambda>s. if s = [CHR 0xE2, CHR 0x84, CHR 0xAA, CHR ''a''] then ''ka'' else s)
       [CHR 0xE2, CHR 0x84, CHR 0xAA, CHR ''a''] = ''ka''
   \<and> snd (rest_alerts
            (\<lambda>s. if s = [CHR 0xE2, CHR 0x84, CHR 0xAA, CHR ''a'']
                  then [CHR 0xE2, CHR 0x84, CHR 0xAA, CHR ''A''] else s)
            (\<lambda>c u. TransportFailure) ''ka'' [])
       = [JStr ''https://api.weather.gov/alerts?area=KA'']
   \<and> snd (rest_alerts
            (\<lambda>s. if s = [CHR 0xE2, CHR 0x84, CHR 0xAA, CHR ''a'']
                  then [CHR 0xE2, CHR 0x84, CHR 0xAA, CHR ''A''] else s)
            (\<lambda>c u. TransportFailure) [CHR 0xE2, CHR 0x84, CHR 0xAA, CHR ''a''] [])
       = [JStr (''https://api.weather.gov/alerts?area='' @ [CHR 0xE2, CHR 0x84, CHR 0xAA, CHR ''A''])]
   \<and> snd (rest_alerts
            (\<lambda>s. if s = [CHR 0xE2, CHR 0x84, CHR 0xAA, CHR ''a'']
                  then [CHR 0xE2, CHR 0x84, CHR 0xAA, CHR ''A''] else s)
            (\<lambda>c u. TransportFailure) ''ka'' [])
       \<noteq> snd (rest_alerts
            (\<lambda>s. if s = [CHR 0xE2, CHR 0x84, CHR 0xAA, CHR ''a'']
                  then [CHR 0xE2, CHR 0x84, CHR 0xAA, CHR ''A''] else s)
            (\<lambda>c u. TransportFailure) [CHR 0xE2, CHR 0x84, CHR 0xAA, CHR ''a''] [])"
  by (simp add: toLowerCase_def toUpperCase_def ascii_def rest_alerts_def NWS_API_BASE_def
      makeNWSRequest_def Let_def upper_char_def char_of_eq_iff)

end
